theory Spec2Isabelle
  imports Main
begin

text \<open>
  The notebook \<^verbatim>\<open>2d_inference_3d_volume\<close> subclasses the framework's sliding-window
  inferer so that a 2D model can be run over a 3D volume. This theory embeds the class,
  its \<^verbatim>\<open>__call__\<close> and its \<^verbatim>\<open>network_wrapper\<close>, and proves what the specification
  says about them. The inherited sliding-window call and the model are parameters.
\<close>

section \<open>Tensors and the framework operations used by the wrapper\<close>

text \<open>
  A tensor is its shape together with its elements in row-major order. Only the two view
  operations the notebook calls are modelled: \<^verbatim>\<open>squeeze(dim=k)\<close> and
  \<^verbatim>\<open>unsqueeze(dim=k)\<close>. Both leave the elements as they are and change the shape only.
\<close>

record 'a tensor =
  shape :: "nat list"
  elems :: "'a list"

text \<open>
  The exceptions that can leave \<^verbatim>\<open>__call__\<close>: the failed \<^verbatim>\<open>assert\<close>
  (the specification's InvalidConfiguration), the \<^verbatim>\<open>RuntimeError\<close> of the rank check
  (UnsupportedShape), an index out of range, and whatever the model or the inherited
  sliding-window call raises, carried as \<open>Raised\<close>.
\<close>

datatype 'e error = AssertionError | RuntimeError | IndexError | Raised 'e

text \<open>\<^verbatim>\<open>list.insert(i, v)\<close>: a negative index counts from the end, and the position is
  clamped to the list, so the call never raises.\<close>

definition list_insert :: "int \<Rightarrow> 'a \<Rightarrow> 'a list \<Rightarrow> 'a list" where
  "list_insert i v xs =
     (let n = int (length xs);
          j = (if i < 0 then max 0 (i + n) else min i n)
      in take (nat j) xs @ v # drop (nat j) xs)"

text \<open>\<^verbatim>\<open>xs[i]\<close> on a list: a negative index counts from the end; outside the list it raises.\<close>

definition list_getitem :: "'a list \<Rightarrow> int \<Rightarrow> 'e error + 'a" where
  "list_getitem xs i =
     (let n = int (length xs);
          j = (if i < 0 then i + n else i)
      in if 0 \<le> j \<and> j < n then Inr (xs ! nat j) else Inl IndexError)"

text \<open>\<^verbatim>\<open>x.squeeze(dim=k)\<close>: the axis is removed when its extent is 1 and the tensor is
  returned as it is otherwise; \<open>k\<close> must lie in \<open>[-r, r-1]\<close> for rank \<open>r\<close> (a scalar
  counts as rank 1 here).\<close>

definition squeeze :: "int \<Rightarrow> 'a tensor \<Rightarrow> 'e error + 'a tensor" where
  "squeeze dim x =
     (let r = int (max 1 (length (shape x)));
          k = nat (if dim < 0 then dim + r else dim)
      in if dim < - r \<or> r \<le> dim then Inl IndexError
         else if k < length (shape x) \<and> shape x ! k = 1
              then Inr (x\<lparr>shape := take k (shape x) @ drop (Suc k) (shape x)\<rparr>)
              else Inr x)"

text \<open>\<^verbatim>\<open>x.unsqueeze(dim=k)\<close>: an axis of extent 1 is inserted at position \<open>k\<close>, which must
  lie in \<open>[-(r+1), r]\<close>.\<close>

definition unsqueeze :: "int \<Rightarrow> 'a tensor \<Rightarrow> 'e error + 'a tensor" where
  "unsqueeze dim x =
     (let r = int (length (shape x));
          k = nat (if dim < 0 then dim + r + 1 else dim)
      in if dim < - (r + 1) \<or> r < dim then Inl IndexError
         else Inr (x\<lparr>shape := take k (shape x) @ 1 # drop k (shape x)\<rparr>))"


section \<open>The wrapper \<^verbatim>\<open>YourSlidingWindowInferer\<close>\<close>

text \<open>
  The instance: \<open>spatial_dim\<close> is set by \<^verbatim>\<open>__init__\<close>; \<open>roi_size\<close> and every other
  setting (\<^verbatim>\<open>sw_batch_size\<close>, \<^verbatim>\<open>cval\<close>, ...) are stored by the parent class, whose
  settings other than \<open>roi_size\<close> the wrapper never reads: they are the field \<open>sw_config\<close>.
\<close>

record 'c inferer =
  spatial_dim :: int
  roi_size :: "int list"
  sw_config :: 'c

text \<open>A model: \<^verbatim>\<open>network(x, *args, **kwargs)\<close> returns a tensor or raises.\<close>

type_synonym ('a, 'e, 'p) network =
  "'a tensor \<Rightarrow> 'p list \<Rightarrow> (string \<times> 'p) list \<Rightarrow> 'e error + 'a tensor"

text \<open>
  The inherited \<^verbatim>\<open>SlidingWindowInferer.__call__(inputs, network, *args, **kwargs)\<close> is
  library code. It is a parameter of the model: a function of the instance it reads, the
  input volume, the callable it is handed and the extra arguments, returning the stitched
  volume or the exception it raised. It is taken not to assign to the instance.
\<close>

type_synonym ('a, 'e, 'c, 'p) primitive =
  "'c inferer \<Rightarrow> 'a tensor \<Rightarrow> ('a tensor \<Rightarrow> 'e error + 'a tensor)
     \<Rightarrow> 'p list \<Rightarrow> (string \<times> 'p) list \<Rightarrow> 'e error + 'a tensor"

definition network_wrapper ::
  "'c inferer \<Rightarrow> ('a, 'e, 'p) network \<Rightarrow> 'a tensor \<Rightarrow> 'p list \<Rightarrow> (string \<times> 'p) list
     \<Rightarrow> 'e error + 'a tensor" where
  "network_wrapper self network x args kwargs =
     (case list_getitem (roi_size self) (spatial_dim self) of
        Inl e \<Rightarrow> Inl e
      | Inr extent \<Rightarrow>
          if extent = 1 then
            (case squeeze (spatial_dim self + 2) x of
               Inl e \<Rightarrow> Inl e
             | Inr x' \<Rightarrow>
                 (case network x' args kwargs of
                    Inl e \<Rightarrow> Inl e
                  | Inr out \<Rightarrow> unsqueeze (spatial_dim self + 2) out))
          else network x args kwargs)"

text \<open>
  \<^verbatim>\<open>__call__(self, inputs, network, slice_axis=0, *args, **kwargs)\<close>. The result is the
  returned volume or the exception, paired with the instance as the call leaves it
  (\<open>roi_size\<close> is assigned before the inherited call is made, so the update stays even
  when that call raises). The inherited call is made with two arguments, so its extra
  arguments are empty, and the callable handed on is
  \<^verbatim>\<open>lambda x: self.network_wrapper(network, x)\<close>, which reads the updated instance and
  gives the model no extra argument.
\<close>

definition call ::
  "('a, 'e, 'c, 'p) primitive \<Rightarrow> 'c inferer \<Rightarrow> 'a tensor \<Rightarrow> ('a, 'e, 'p) network \<Rightarrow> int
     \<Rightarrow> 'p list \<Rightarrow> (string \<times> 'p) list \<Rightarrow> ('e error + 'a tensor) \<times> 'c inferer" where
  "call super_call self inputs network slice_axis args kwargs =
     (if \<not> spatial_dim self < 3 then (Inl AssertionError, self)
      else if length (roi_size self) \<noteq> length (drop 2 (shape inputs)) then
        (if length (roi_size self) = 2 then
           (let self' = self\<lparr>roi_size := list_insert (spatial_dim self) 1 (roi_size self)\<rparr>
            in (super_call self' inputs (\<lambda>x. network_wrapper self' network x [] []) [] [], self'))
         else (Inl RuntimeError, self))
      else (super_call self inputs (\<lambda>x. network_wrapper self network x [] []) [] [], self))"


section \<open>What is assumed of the inherited sliding-window call\<close>

text \<open>
  The inherited call is relied on for one thing, its shape contract. The ROI size has the
  spatial rank of the input and positive extents; every tile handed to the callable has
  the batch size \<open>b\<close> of its batch, the channels \<open>c\<close> of the input and the ROI size as its
  spatial shape. When the callable answers each such tile with a tile of the same batch
  size and spatial shape and \<open>c_out\<close> channels, the call returns a volume with the batch
  size and the spatial shape of the input and \<open>c_out\<close> channels.
\<close>

definition sw_contract :: "('a, 'e, 'c, 'p) primitive \<Rightarrow> bool" where
  "sw_contract super_call \<longleftrightarrow>
     (\<forall>self inputs f n c sp c_out.
        shape inputs = n # c # sp \<and>
        length (roi_size self) = length sp \<and>
        (\<forall>r \<in> set (roi_size self). 0 < r) \<and>
        (\<forall>t b. shape t = b # c # map nat (roi_size self) \<longrightarrow>
               (\<exists>y. f t = Inr y \<and> shape y = b # c_out # map nat (roi_size self)))
        \<longrightarrow> (\<exists>out. super_call self inputs f [] [] = Inr out \<and> shape out = n # c_out # sp))"

text \<open>
  A second thing can be asked of the inherited call, and holds of one that forms at least
  one batch and catches nothing: when the callable raises \<open>e\<close> on every tile of the
  ROI's shape, the call raises \<open>e\<close>.
\<close>

definition sw_reraises :: "('a, 'e, 'c, 'p) primitive \<Rightarrow> bool" where
  "sw_reraises super_call \<longleftrightarrow>
     (\<forall>self inputs f n c sp e.
        shape inputs = n # c # sp \<and>
        length (roi_size self) = length sp \<and>
        (\<forall>t b. shape t = b # c # map nat (roi_size self) \<longrightarrow> f t = Inl e)
        \<longrightarrow> super_call self inputs f [] [] = Inl e)"

text \<open>
  A 2D model for \<open>c\<close> channels and planes of \<open>p\<close> by \<open>q\<close>: called with no extra argument
  on a tensor of shape \<open>(b, c, p, q)\<close> it returns a tensor of shape \<open>(b, c_out, p, q)\<close>.
\<close>

definition model_2d :: "('a, 'e, 'p) network \<Rightarrow> nat \<Rightarrow> nat \<Rightarrow> nat \<Rightarrow> nat \<Rightarrow> bool" where
  "model_2d network c c_out p q \<longleftrightarrow>
     (\<forall>t b. shape t = [b, c, p, q] \<longrightarrow>
        (\<exists>y. network t [] [] = Inr y \<and> shape y = [b, c_out, p, q]))"

text \<open>
  The contract can be met. The smallest function that meets it hands the callable one
  batch, of the input's batch size and filled with the fill value, and returns a volume
  of the input's spatial shape with the channels of the callable's answer. Its settings
  are the pair of \<^verbatim>\<open>sw_batch_size\<close> and \<^verbatim>\<open>cval\<close>.
\<close>

definition single_tile_primitive :: "('a, 'e, nat \<times> 'a, 'p) primitive" where
  "single_tile_primitive self inputs f args kwargs =
     (let tile_shape = take 2 (shape inputs) @ map nat (roi_size self)
      in case f \<lparr>shape = tile_shape,
                 elems = replicate (prod_list tile_shape) (snd (sw_config self))\<rparr> of
           Inl e \<Rightarrow> Inl e
         | Inr y \<Rightarrow>
             (let out_shape = take 1 (shape inputs) @ take 1 (drop 1 (shape y))
                                @ drop 2 (shape inputs)
              in Inr \<lparr>shape = out_shape,
                      elems = replicate (prod_list out_shape) (snd (sw_config self))\<rparr>))"


section \<open>The objects of the notebook's test cell\<close>

text \<open>
  \<^verbatim>\<open>input_volume = torch.ones(1, 1, 64, 256, 256)\<close>, and the two instances
  \<^verbatim>\<open>YourSlidingWindowInferer(roi_size=(256, 256), sw_batch_size=1, cval=-1)\<close> and
  \<^verbatim>\<open>YourSlidingWindowInferer(roi_size=(64, 256), sw_batch_size=1, spatial_dim=1, cval=-1)\<close>.
  The elements are written as integers: these volumes hold no other number than 1 and -1.
\<close>

definition input_volume :: "int tensor" where
  "input_volume = \<lparr>shape = [1, 1, 64, 256, 256], elems = replicate (64 * 256 * 256) 1\<rparr>"

definition axial_inferer :: "(nat \<times> int) inferer" where
  "axial_inferer = \<lparr>spatial_dim = 0, roi_size = [256, 256], sw_config = (1, - 1)\<rparr>"

definition coronal_inferer :: "(nat \<times> int) inferer" where
  "coronal_inferer = \<lparr>spatial_dim = 1, roi_size = [64, 256], sw_config = (1, - 1)\<rparr>"

text \<open>
  The notebook's network is a 2D U-Net with one channel in and one out. What the examples
  below need of it is its shape behaviour, which this model has: a tensor of shape
  \<open>(b, 1, h, w)\<close> is answered with a tensor of the same shape (here, itself), and a tensor
  of any other shape or an extra argument makes the model raise.
\<close>

definition plane_net :: "(int, string, unit) network" where
  "plane_net x args kwargs =
     (if length (shape x) = 4 \<and> shape x ! 1 = 1 \<and> args = [] \<and> kwargs = []
      then Inr x else Inl (Raised ''expected (b, 1, h, w) and no extra argument''))"


text \<open>A model that raises on every input.\<close>

definition failing_net :: "(int, string, unit) network" where
  "failing_net x args kwargs = Inl (Raised ''model failed'')"


section \<open>The two methods over a store\<close>

text \<open>
  Two things cannot be said about the functions above: that a call has one outcome only
  because the model and the inherited call have one, and what a call writes. For these the
  two methods are embedded a second time, branch for branch as before, with what was left
  implicit made explicit.
  \<^item> The store is the list of the buffers allocated so far; a tensor is a view, the index of
    its buffer and its shape. \<^verbatim>\<open>squeeze\<close> and \<^verbatim>\<open>unsqueeze\<close> return a view of the same
    buffer; the shape is computed by the functions of the first section.
  \<^item> The model and the inherited call take the store and give the set of their possible
    outcomes, each a result or exception with the store it leaves.
\<close>

type_synonym 'a heap = "'a list list"

record tref =
  buffer :: nat
  dims :: "nat list"

definition squeeze_view :: "int \<Rightarrow> tref \<Rightarrow> 'e error + tref" where
  "squeeze_view dim x =
     (case squeeze dim \<lparr>shape = dims x, elems = ([] :: unit list)\<rparr> of
        Inl e \<Rightarrow> Inl e
      | Inr t \<Rightarrow> Inr (x\<lparr>dims := shape t\<rparr>))"

definition unsqueeze_view :: "int \<Rightarrow> tref \<Rightarrow> 'e error + tref" where
  "unsqueeze_view dim x =
     (case unsqueeze dim \<lparr>shape = dims x, elems = ([] :: unit list)\<rparr> of
        Inl e \<Rightarrow> Inl e
      | Inr t \<Rightarrow> Inr (x\<lparr>dims := shape t\<rparr>))"

type_synonym ('a, 'e) outcome = "('e error + tref) \<times> 'a heap"

type_synonym ('a, 'e, 'p) network_st =
  "tref \<Rightarrow> 'p list \<Rightarrow> (string \<times> 'p) list \<Rightarrow> 'a heap \<Rightarrow> ('a, 'e) outcome set"

type_synonym ('a, 'e, 'c, 'p) primitive_st =
  "'c inferer \<Rightarrow> tref \<Rightarrow> (tref \<Rightarrow> 'a heap \<Rightarrow> ('a, 'e) outcome set)
     \<Rightarrow> 'p list \<Rightarrow> (string \<times> 'p) list \<Rightarrow> 'a heap \<Rightarrow> ('a, 'e) outcome set"

definition network_wrapper_st ::
  "'c inferer \<Rightarrow> ('a, 'e, 'p) network_st \<Rightarrow> tref \<Rightarrow> 'p list \<Rightarrow> (string \<times> 'p) list
     \<Rightarrow> 'a heap \<Rightarrow> ('a, 'e) outcome set" where
  "network_wrapper_st self network x args kwargs h =
     (case list_getitem (roi_size self) (spatial_dim self) of
        Inl e \<Rightarrow> {(Inl e, h)}
      | Inr extent \<Rightarrow>
          if extent = 1 then
            (case squeeze_view (spatial_dim self + 2) x of
               Inl e \<Rightarrow> {(Inl e, h)}
             | Inr x' \<Rightarrow>
                 (\<Union>(r, h') \<in> network x' args kwargs h.
                    case r of
                      Inl e \<Rightarrow> {(Inl e, h')}
                    | Inr out \<Rightarrow> {(unsqueeze_view (spatial_dim self + 2) out, h')}))
          else network x args kwargs h)"

definition call_st ::
  "('a, 'e, 'c, 'p) primitive_st \<Rightarrow> 'c inferer \<Rightarrow> tref \<Rightarrow> ('a, 'e, 'p) network_st \<Rightarrow> int
     \<Rightarrow> 'p list \<Rightarrow> (string \<times> 'p) list \<Rightarrow> 'a heap \<Rightarrow> (('a, 'e) outcome \<times> 'c inferer) set" where
  "call_st super_call self inputs network slice_axis args kwargs h =
     (if \<not> spatial_dim self < 3 then {((Inl AssertionError, h), self)}
      else if length (roi_size self) \<noteq> length (drop 2 (dims inputs)) then
        (if length (roi_size self) = 2 then
           (let self' = self\<lparr>roi_size := list_insert (spatial_dim self) 1 (roi_size self)\<rparr>
            in (\<lambda>out. (out, self')) `
                 super_call self' inputs (\<lambda>x. network_wrapper_st self' network x [] []) [] [] h)
         else {((Inl RuntimeError, h), self)})
      else (\<lambda>out. (out, self)) `
             super_call self inputs (\<lambda>x. network_wrapper_st self network x [] []) [] [] h)"












section \<open>Lists and views\<close>

lemma list_insert_pair:
  "list_insert 0 v [p, q] = [v, p, q]"
  "list_insert 1 v [p, q] = [p, v, q]"
  "list_insert 2 v [p, q] = [p, q, v]"
  by (simp_all add: list_insert_def)

lemma length_list_insert: "length (list_insert i v xs) = Suc (length xs)"
  by (simp add: list_insert_def Let_def)

lemma squeeze_elems: "squeeze k x = Inr y \<Longrightarrow> elems y = elems x"
  by (auto simp: squeeze_def Let_def split: if_splits)

lemma unsqueeze_elems: "unsqueeze k x = Inr y \<Longrightarrow> elems y = elems x"
  by (auto simp: unsqueeze_def Let_def split: if_splits)


lemma shape_input_volume: "shape input_volume = [1, 1, 64, 256, 256]"
  by (simp add: input_volume_def)


section \<open>The broadcast branch of a call\<close>

lemma call_broadcast:
  "spatial_dim self < 3 \<Longrightarrow> length (roi_size self) \<noteq> length (shape inputs) - 2 \<Longrightarrow>
   length (roi_size self) = 2 \<Longrightarrow>
   self' = self\<lparr>roi_size := list_insert (spatial_dim self) 1 (roi_size self)\<rparr> \<Longrightarrow>
     call super_call self inputs network slice_axis args kwargs =
       (super_call self' inputs (\<lambda>x. network_wrapper self' network x [] []) [] [], self')"
  by (simp add: call_def Let_def)


section \<open>Normalisation of the ROI size\<close>

text \<open>
  Claim C1. A stored ROI size of rank 2, \<open>[p, q]\<close>, a slice axis in \<open>{0, 1, 2}\<close> and an
  input of spatial rank 3: after the call the ROI size has rank 3, holds 1 at the position
  of the slice axis and \<open>p\<close>, \<open>q\<close> in this order at the two other positions, and it is
  the instance with this ROI size that the inherited call receives. When the rank of the
  ROI size already equals the spatial rank of the input, the call leaves the ROI size as
  it is.
\<close>

theorem roi_normalisation:
  "(spatial_dim self \<in> {0, 1, 2} \<and> roi_size self = [p, q] \<and> length (shape inputs) = 5 \<longrightarrow>
      (let self' = snd (call super_call self inputs network slice_axis args kwargs) in
         roi_size self' =
           (if spatial_dim self = 0 then [1, p, q]
            else if spatial_dim self = 1 then [p, 1, q] else [p, q, 1]) \<and>
         length (roi_size self') = 3 \<and>
         roi_size self' ! nat (spatial_dim self) = 1 \<and>
         nths (roi_size self') (- {nat (spatial_dim self)}) = [p, q] \<and>
         fst (call super_call self inputs network slice_axis args kwargs) =
           super_call self' inputs (\<lambda>x. network_wrapper self' network x [] []) [] []))
   \<and> (length (roi_size self) = length (shape inputs) - 2 \<longrightarrow>
        roi_size (snd (call super_call self inputs network slice_axis args kwargs)) =
          roi_size self)"
proof (intro conjI impI)
  assume h: "spatial_dim self \<in> {0, 1, 2} \<and> roi_size self = [p, q] \<and> length (shape inputs) = 5"
  then consider "spatial_dim self = 0" | "spatial_dim self = 1" | "spatial_dim self = 2"
    by auto
  then show "let self' = snd (call super_call self inputs network slice_axis args kwargs) in
         roi_size self' =
           (if spatial_dim self = 0 then [1, p, q]
            else if spatial_dim self = 1 then [p, 1, q] else [p, q, 1]) \<and>
         length (roi_size self') = 3 \<and>
         roi_size self' ! nat (spatial_dim self) = 1 \<and>
         nths (roi_size self') (- {nat (spatial_dim self)}) = [p, q] \<and>
         fst (call super_call self inputs network slice_axis args kwargs) =
           super_call self' inputs (\<lambda>x. network_wrapper self' network x [] []) [] []"
  proof cases
    case 1
    with h show ?thesis
      by (simp add: call_def Let_def list_insert_pair nths_Cons)
  next
    case 2
    with h show ?thesis
      by (simp add: call_def Let_def list_insert_pair nths_Cons)
  next
    case 3
    with h show ?thesis
      by (simp add: call_def Let_def list_insert_pair nths_Cons)
  qed
next
  assume "length (roi_size self) = length (shape inputs) - 2"
  then show "roi_size (snd (call super_call self inputs network slice_axis args kwargs)) =
          roi_size self"
    by (simp add: call_def)
qed

theorem roi_normalisation_witness:
  "(spatial_dim axial_inferer \<in> {0, 1, 2} \<and> roi_size axial_inferer = [256, 256] \<and>
    length (shape input_volume) = 5 \<and>
    roi_size (snd (call single_tile_primitive axial_inferer input_volume plane_net 0 [] []))
      = [1, 256, 256])
   \<and> (spatial_dim coronal_inferer \<in> {0, 1, 2} \<and> roi_size coronal_inferer = [64, 256] \<and>
    roi_size (snd (call single_tile_primitive coronal_inferer input_volume plane_net 0 [] []))
      = [64, 1, 256])
   \<and> (length (roi_size (axial_inferer\<lparr>roi_size := [1, 256, 256]\<rparr>))
        = length (shape input_volume) - 2 \<and>
    roi_size (snd (call single_tile_primitive (axial_inferer\<lparr>roi_size := [1, 256, 256]\<rparr>)
                     input_volume plane_net 0 [] []))
      = [1, 256, 256])"
  using roi_normalisation [where self = axial_inferer and p = 256 and q = 256
      and inputs = input_volume and super_call = single_tile_primitive
      and network = plane_net and slice_axis = 0 and args = "[]" and kwargs = "[]"]
    roi_normalisation [where self = coronal_inferer and p = 64 and q = 256
      and inputs = input_volume and super_call = single_tile_primitive
      and network = plane_net and slice_axis = 0 and args = "[]" and kwargs = "[]"]
    roi_normalisation [where self = "axial_inferer\<lparr>roi_size := [1, 256, 256]\<rparr>"
      and inputs = input_volume and super_call = single_tile_primitive
      and network = plane_net and slice_axis = 0 and args = "[]" and kwargs = "[]"]
  by (simp add: shape_input_volume axial_inferer_def coronal_inferer_def Let_def)


section \<open>Shape of the result\<close>

lemma single_tile_primitive_contract:
  "sw_contract (single_tile_primitive :: ('a, 'e, nat \<times> 'a, 'p) primitive)"
  unfolding sw_contract_def
proof (intro allI impI, elim conjE)
  fix self :: "(nat \<times> 'a) inferer" and inputs :: "'a tensor"
    and f :: "'a tensor \<Rightarrow> 'e error + 'a tensor" and n c sp c_out
  assume sh: "shape inputs = n # c # sp"
    and f: "\<forall>t b. shape t = b # c # map nat (roi_size self) \<longrightarrow>
               (\<exists>y. f t = Inr y \<and> shape y = b # c_out # map nat (roi_size self))"
  let ?ts = "n # c # map nat (roi_size self)"
  let ?t = "\<lparr>shape = ?ts, elems = replicate (prod_list ?ts) (snd (sw_config self))\<rparr>"
  from f have "\<exists>y. f ?t = Inr y \<and> shape y = n # c_out # map nat (roi_size self)"
    by simp
  then obtain y where y: "f ?t = Inr y" "shape y = n # c_out # map nat (roi_size self)"
    by blast
  show "\<exists>out. single_tile_primitive self inputs f [] [] = Inr out \<and> shape out = n # c_out # sp"
    using sh y by (simp add: single_tile_primitive_def Let_def)
qed

lemma adapter_tile_shape:
  assumes a: "spatial_dim self \<in> {0, 1, 2}"
    and roi: "roi_size self = list_insert (spatial_dim self) 1 [p, q]"
    and net: "model_2d (network :: ('a, 'e, 'p) network) c c_out (nat p) (nat q)"
    and t: "shape t = b # c # map nat (roi_size self)"
  shows "\<exists>y. network_wrapper self network t [] [] = Inr y \<and>
             shape y = b # c_out # map nat (roi_size self)"
proof -
  let ?t' = "t\<lparr>shape := [b, c, nat p, nat q]\<rparr>"
  have "shape ?t' = [b, c, nat p, nat q]" by simp
  with net obtain y where y: "network ?t' [] [] = Inr y" "shape y = [b, c_out, nat p, nat q]"
    unfolding model_2d_def by blast
  from a consider "spatial_dim self = 0" | "spatial_dim self = 1" | "spatial_dim self = 2"
    by auto
  then show ?thesis
  proof cases
    case 1
    with roi have r: "roi_size self = [1, p, q]" by (simp add: list_insert_pair)
    with t have "squeeze 2 t = (Inr ?t' :: 'e error + 'a tensor)"
      by (simp add: squeeze_def Let_def)
    with 1 r y show ?thesis
      by (simp add: network_wrapper_def list_getitem_def unsqueeze_def Let_def)
  next
    case 2
    with roi have r: "roi_size self = [p, 1, q]" by (simp add: list_insert_pair)
    with t have "squeeze 3 t = (Inr ?t' :: 'e error + 'a tensor)"
      by (simp add: squeeze_def Let_def)
    with 2 r y show ?thesis
      by (simp add: network_wrapper_def list_getitem_def unsqueeze_def Let_def)
  next
    case 3
    with roi have r: "roi_size self = [p, q, 1]" by (simp add: list_insert_pair)
    with t have "squeeze 4 t = (Inr ?t' :: 'e error + 'a tensor)"
      by (simp add: squeeze_def Let_def)
    with 3 r y show ?thesis
      by (simp add: network_wrapper_def list_getitem_def unsqueeze_def Let_def)
  qed
qed

text \<open>
  Claim C2. The inherited call meets its shape contract, the stored ROI size \<open>[p, q]\<close>
  has rank 2 and positive extents, the slice axis is 0, 1 or 2, the input has shape
  \<open>(n, c, d, h, w)\<close>, and the model is 2D with \<open>c_out\<close> output channels: it answers every
  \<open>(b, c, p, q)\<close> tensor with a \<open>(b, c_out, p, q)\<close> tensor. Then the call returns a volume, of shape
  \<open>(n, c_out, d, h, w)\<close>.
\<close>

theorem output_shape:
  assumes sw: "sw_contract super_call"
    and a: "spatial_dim self \<in> {0, 1, 2}"
    and roi: "roi_size self = [p, q]" and pos: "0 < p" "0 < q"
    and inp: "shape inputs = [n, c, d, h, w]"
    and net: "model_2d network c c_out (nat p) (nat q)"
  shows "\<exists>out. fst (call super_call self inputs network slice_axis args kwargs) = Inr out \<and>
               shape out = [n, c_out, d, h, w]"
proof -
  define self' where "self' = self\<lparr>roi_size := list_insert (spatial_dim self) 1 (roi_size self)\<rparr>"
  have sd: "spatial_dim self' = spatial_dim self" and
    r': "roi_size self' = list_insert (spatial_dim self) 1 [p, q]"
    by (simp_all add: self'_def roi)
  have c: "call super_call self inputs network slice_axis args kwargs =
       (super_call self' inputs (\<lambda>x. network_wrapper self' network x [] []) [] [], self')"
    using a roi inp by (intro call_broadcast) (auto simp: self'_def)
  have len: "length (roi_size self') = length [d, h, w]"
    by (simp add: r' length_list_insert)
  have posr: "\<forall>r \<in> set (roi_size self'). 0 < r"
    using a pos by (auto simp: r' list_insert_pair)
  have tiles: "\<forall>t b. shape t = b # c # map nat (roi_size self') \<longrightarrow>
      (\<exists>y. network_wrapper self' network t [] [] = Inr y \<and>
           shape y = b # c_out # map nat (roi_size self'))"
    using adapter_tile_shape [where self = self' and p = p and q = q and c = c
        and network = network and c_out = c_out] a net sd r' by simp
  from sw [unfolded sw_contract_def, rule_format, of inputs n c "[d, h, w]" self'
      "\<lambda>x. network_wrapper self' network x [] []" c_out]
  have "\<exists>out. super_call self' inputs (\<lambda>x. network_wrapper self' network x [] []) [] [] = Inr out \<and>
      shape out = [n, c_out, d, h, w]"
    using inp len posr tiles by blast
  then show ?thesis by (simp add: c)
qed

theorem output_shape_witness:
  "sw_contract (single_tile_primitive :: (int, string, nat \<times> int, unit) primitive) \<and>
   spatial_dim coronal_inferer \<in> {0, 1, 2} \<and> roi_size coronal_inferer = [64, 256] \<and>
   shape input_volume = [1, 1, 64, 256, 256] \<and>
   model_2d plane_net 1 1 (nat 64) (nat 256) \<and>
   (\<exists>out. fst (call single_tile_primitive coronal_inferer input_volume plane_net 0 [] [])
             = Inr out \<and> shape out = [1, 1, 64, 256, 256])"
proof -
  have net: "model_2d plane_net 1 1 (nat 64) (nat 256)"
    by (simp add: model_2d_def plane_net_def)
  have cfg: "spatial_dim coronal_inferer \<in> {0, 1, 2}" "roi_size coronal_inferer = [64, 256]"
    by (simp_all add: coronal_inferer_def)
  have sw: "sw_contract (single_tile_primitive :: (int, string, nat \<times> int, unit) primitive)"
    by (rule single_tile_primitive_contract)
  show ?thesis
    using output_shape [where super_call = single_tile_primitive
        and self = coronal_inferer and p = 64 and q = 256 and inputs = input_volume
        and n = 1 and c = 1 and d = 64 and h = 256 and w = 256 and network = plane_net
        and c_out = 1 and slice_axis = 0 and args = "[]" and kwargs = "[]"]
      sw net cfg shape_input_volume
    by simp
qed


section \<open>The model adapter\<close>

lemma three_list: "length xs = 3 \<Longrightarrow> \<exists>r0 r1 r2. xs = [r0, r1, r2]"
  by (cases xs; simp; cases "tl xs"; simp; cases "tl (tl xs)"; simp)

text \<open>
  Claim C3. The slice axis \<open>a\<close> is 0, 1 or 2, the ROI size has rank 3, and the tile has
  the shape \<open>(b, c)\<close> followed by the ROI size. When the ROI extent at \<open>a\<close> is 1, the
  adapter calls the model, with the extra arguments it was given, on the tile without
  its axis \<open>a + 2\<close> (shape \<open>(b, c)\<close> followed by the two other ROI extents, elements
  unchanged); an exception of the model is the adapter's, and into a returned tensor with
  at least \<open>a + 2\<close> axes an axis of extent 1 is inserted at position \<open>a + 2\<close> (with fewer
  axes \<^verbatim>\<open>unsqueeze\<close> raises). When the ROI extent at \<open>a\<close> is not 1, the adapter's result
  is the model's result on the tile itself.
\<close>

theorem adapter_behaviour:
  assumes a: "spatial_dim self \<in> {0, 1, 2}"
    and len: "length (roi_size self) = 3"
    and x: "shape x = b # c # map nat (roi_size self)"
  shows "(roi_size self ! nat (spatial_dim self) = 1 \<longrightarrow>
           network_wrapper self network x args kwargs =
             (case network
                     (x\<lparr>shape := b # c # nths (map nat (roi_size self))
                                            (- {nat (spatial_dim self)})\<rparr>)
                     args kwargs of
                Inl e \<Rightarrow> Inl e
              | Inr out \<Rightarrow>
                  if nat (spatial_dim self) + 2 \<le> length (shape out)
                  then Inr (out\<lparr>shape := take (nat (spatial_dim self) + 2) (shape out) @ 1 #
                                           drop (nat (spatial_dim self) + 2) (shape out)\<rparr>)
                  else Inl IndexError))
       \<and> (roi_size self ! nat (spatial_dim self) \<noteq> 1 \<longrightarrow>
            network_wrapper self network x args kwargs = network x args kwargs)"
proof -
  from len obtain r0 r1 r2 where r: "roi_size self = [r0, r1, r2]"
    using three_list by blast
  from a consider "spatial_dim self = 0" | "spatial_dim self = 1" | "spatial_dim self = 2"
    by auto
  then show ?thesis
  proof cases
    case 1
    then show ?thesis using r x
      by (auto simp: network_wrapper_def list_getitem_def squeeze_def unsqueeze_def Let_def
          nths_Cons eval_nat_numeral split: sum.splits)
  next
    case 2
    then show ?thesis using r x
      by (auto simp: network_wrapper_def list_getitem_def squeeze_def unsqueeze_def Let_def
          nths_Cons eval_nat_numeral split: sum.splits)
  next
    case 3
    then show ?thesis using r x
      by (auto simp: network_wrapper_def list_getitem_def squeeze_def unsqueeze_def Let_def
          nths_Cons eval_nat_numeral split: sum.splits)
  qed
qed

theorem adapter_behaviour_witness:
  "spatial_dim (coronal_inferer\<lparr>roi_size := [2, 1, 2]\<rparr>) \<in> {0, 1, 2} \<and>
   length (roi_size (coronal_inferer\<lparr>roi_size := [2, 1, 2]\<rparr>)) = 3 \<and>
   roi_size (coronal_inferer\<lparr>roi_size := [2, 1, 2]\<rparr>) ! nat 1 = 1 \<and>
   network_wrapper (coronal_inferer\<lparr>roi_size := [2, 1, 2]\<rparr>) plane_net
       \<lparr>shape = [1, 1, 2, 1, 2], elems = [1, 1, 1, 1]\<rparr> [] []
     = Inr \<lparr>shape = [1, 1, 2, 1, 2], elems = [1, 1, 1, 1]\<rparr> \<and>
   roi_size (coronal_inferer\<lparr>roi_size := [2, 2, 2]\<rparr>) ! nat 1 \<noteq> 1 \<and>
   network_wrapper (coronal_inferer\<lparr>roi_size := [2, 2, 2]\<rparr>) plane_net
       \<lparr>shape = [1, 1, 2, 2, 2], elems = [1, 1, 1, 1, 1, 1, 1, 1]\<rparr> [] []
     = Inl (Raised ''expected (b, 1, h, w) and no extra argument'')"
  using adapter_behaviour [where self = "coronal_inferer\<lparr>roi_size := [2, 1, 2]\<rparr>"
      and x = "\<lparr>shape = [1, 1, 2, 1, 2], elems = [1, 1, 1, 1]\<rparr>" and b = 1 and c = 1
      and network = plane_net and args = "[]" and kwargs = "[]"]
    adapter_behaviour [where self = "coronal_inferer\<lparr>roi_size := [2, 2, 2]\<rparr>"
      and x = "\<lparr>shape = [1, 1, 2, 2, 2], elems = [1, 1, 1, 1, 1, 1, 1, 1]\<rparr>" and b = 1
      and c = 1 and network = plane_net and args = "[]" and kwargs = "[]"]
  by (simp add: coronal_inferer_def plane_net_def nths_Cons)


section \<open>The checks made before the inherited call\<close>

text \<open>
  Claim C4. The notebook's first instance with \<^verbatim>\<open>spatial_dim\<close> set to 3 fails the
  assertion, whatever the inherited call and the model are. With \<^verbatim>\<open>spatial_dim\<close> set
  to -1 the assertion \<^verbatim>\<open>self.spatial_dim < 3\<close> passes: \<^verbatim>\<open>insert(-1, 1)\<close> makes the ROI
  size \<open>(256, 1, 256)\<close>, \<^verbatim>\<open>roi_size[-1]\<close> is 256 and not 1, and the inherited call is made
  with a callable that hands each tile to the model as it is.
\<close>

theorem slice_axis_check_misses_negative:
  "call super_call (axial_inferer\<lparr>spatial_dim := 3\<rparr>) input_volume network slice_axis
       args kwargs =
     (Inl AssertionError, axial_inferer\<lparr>spatial_dim := 3\<rparr>)
   \<and> call super_call (axial_inferer\<lparr>spatial_dim := - 1\<rparr>) input_volume network slice_axis
       args kwargs =
     (super_call (axial_inferer\<lparr>spatial_dim := - 1, roi_size := [256, 1, 256]\<rparr>) input_volume
        (\<lambda>x. network x [] []) [] [],
      axial_inferer\<lparr>spatial_dim := - 1, roi_size := [256, 1, 256]\<rparr>)"
  by (simp add: call_def shape_input_volume axial_inferer_def list_insert_def Let_def
      network_wrapper_def list_getitem_def)

text \<open>
  Claim C5. On an instance that passes the check of the slice axis, a stored ROI size
  whose rank is neither 2 nor the spatial rank of the input makes the call raise
  \<^verbatim>\<open>RuntimeError\<close> and leave the instance as it was. The result is the same for every
  inherited call: it is not invoked.
\<close>

theorem unsupported_roi_rank:
  "spatial_dim self < 3 \<Longrightarrow> length (roi_size self) \<noteq> 2 \<Longrightarrow>
   length (roi_size self) \<noteq> length (shape inputs) - 2 \<Longrightarrow>
     call super_call self inputs network slice_axis args kwargs = (Inl RuntimeError, self)"
  by (simp add: call_def)

theorem unsupported_roi_rank_witness:
  "spatial_dim (axial_inferer\<lparr>roi_size := [256]\<rparr>) < 3 \<and>
   length (roi_size (axial_inferer\<lparr>roi_size := [256]\<rparr>)) \<noteq> 2 \<and>
   length (roi_size (axial_inferer\<lparr>roi_size := [256]\<rparr>)) \<noteq> length (shape input_volume) - 2 \<and>
   call single_tile_primitive (axial_inferer\<lparr>roi_size := [256]\<rparr>) input_volume plane_net 0 [] []
     = (Inl RuntimeError, axial_inferer\<lparr>roi_size := [256]\<rparr>)"
  using unsupported_roi_rank [where self = "axial_inferer\<lparr>roi_size := [256]\<rparr>"
      and inputs = input_volume and super_call = single_tile_primitive and network = plane_net
      and slice_axis = 0 and args = "[]" and kwargs = "[]"]
  by (simp add: axial_inferer_def shape_input_volume)


section \<open>The cached ROI size\<close>

text \<open>
  Claim C6. An instance with a ROI size of rank 2 is called on an input of spatial rank
  3 and then on a second one, with any models and arguments. The second call leaves the
  instance as the first call left it. When the slice axis passes its check, that ROI size
  has rank 3 and the second call delegates with exactly this instance.
\<close>

theorem cached_roi_stable:
  assumes "length (roi_size self) = 2" "length (shape x1) = 5" "length (shape x2) = 5"
  shows "(let first = call super_call self x1 net1 ax1 args1 kwargs1;
              second = call super_call (snd first) x2 net2 ax2 args2 kwargs2
          in snd second = snd first \<and>
             (spatial_dim self < 3 \<longrightarrow>
                length (roi_size (snd first)) = 3 \<and>
                fst second = super_call (snd first) x2
                               (\<lambda>x. network_wrapper (snd first) net2 x [] []) [] []))"
  using assms by (simp add: call_def Let_def length_list_insert)

theorem cached_roi_stable_witness:
  "length (roi_size axial_inferer) = 2 \<and> length (shape input_volume) = 5 \<and>
   length (shape (input_volume\<lparr>shape := [2, 1, 32, 256, 256]\<rparr>)) = 5 \<and>
   snd (call single_tile_primitive
          (snd (call single_tile_primitive axial_inferer input_volume plane_net 0 [] []))
          (input_volume\<lparr>shape := [2, 1, 32, 256, 256]\<rparr>) plane_net 0 [] [])
     = snd (call single_tile_primitive axial_inferer input_volume plane_net 0 [] []) \<and>
   roi_size (snd (call single_tile_primitive axial_inferer input_volume plane_net 0 [] []))
     = [1, 256, 256]"
  using cached_roi_stable [where self = axial_inferer and ?x1.0 = input_volume
      and ?x2.0 = "input_volume\<lparr>shape := [2, 1, 32, 256, 256]\<rparr>"
      and super_call = single_tile_primitive and ?net1.0 = plane_net and ?net2.0 = plane_net
      and ?ax1.0 = 0 and ?ax2.0 = 0 and ?args1.0 = "[]" and ?args2.0 = "[]"
      and ?kwargs1.0 = "[]" and ?kwargs2.0 = "[]"]
  by (simp add: Let_def shape_input_volume axial_inferer_def call_def list_insert_def)


section \<open>Exceptions of the model and of the inherited call\<close>

lemma single_tile_primitive_reraises:
  "sw_reraises (single_tile_primitive :: ('a, 'e, nat \<times> 'a, 'p) primitive)"
  unfolding sw_reraises_def
proof (intro allI impI, elim conjE)
  fix self :: "(nat \<times> 'a) inferer" and inputs :: "'a tensor"
    and f :: "'a tensor \<Rightarrow> 'e error + 'a tensor" and n c sp e
  assume sh: "shape inputs = n # c # sp"
    and f: "\<forall>t b. shape t = b # c # map nat (roi_size self) \<longrightarrow> f t = Inl e"
  let ?ts = "n # c # map nat (roi_size self)"
  from f have "f \<lparr>shape = ?ts, elems = replicate (prod_list ?ts) (snd (sw_config self))\<rparr> = Inl e"
    by simp
  with sh show "single_tile_primitive self inputs f [] [] = Inl e"
    by (simp add: single_tile_primitive_def Let_def)
qed

lemma adapter_raises:
  assumes a: "spatial_dim self \<in> {0, 1, 2}"
    and roi: "roi_size self = list_insert (spatial_dim self) 1 [p, q]"
    and net: "\<forall>t. (network :: ('a, 'e, 'p) network) t [] [] = Inl e"
    and t: "shape t = b # c # map nat (roi_size self)"
  shows "network_wrapper self network t [] [] = Inl e"
proof -
  from a consider "spatial_dim self = 0" | "spatial_dim self = 1" | "spatial_dim self = 2"
    by auto
  then show ?thesis
  proof cases
    case 1
    with roi t net show ?thesis
      by (simp add: list_insert_pair network_wrapper_def list_getitem_def squeeze_def Let_def)
  next
    case 2
    with roi t net show ?thesis
      by (simp add: list_insert_pair network_wrapper_def list_getitem_def squeeze_def Let_def)
  next
    case 3
    with roi t net show ?thesis
      by (simp add: list_insert_pair network_wrapper_def list_getitem_def squeeze_def Let_def)
  qed
qed

text \<open>
  Claim C7. Once both checks pass, the result of the call is the result of the
  inherited call, so an exception of the inherited call is the call's. In the adapter, an
  exception of the model is the adapter's result, in the branch that squeezes and in the
  branch that does not. Together, with an inherited call that lets the exceptions of its
  callable through: a model that raises \<open>e\<close> makes the call on a 5-dimensional volume,
  from a ROI size of rank 2, raise \<open>e\<close>, and no volume is returned.
\<close>

theorem errors_propagated:
  "(spatial_dim self < 3 \<and>
    (length (roi_size self) = 2 \<or> length (roi_size self) = length (shape inputs) - 2) \<longrightarrow>
      (let r = call super_call self inputs network slice_axis args kwargs in
         fst r = super_call (snd r) inputs (\<lambda>x. network_wrapper (snd r) network x [] []) [] []))
   \<and> (list_getitem (roi_size self) (spatial_dim self) = (Inr 1 :: 'e error + int) \<and>
       squeeze (spatial_dim self + 2) x = (Inr x' :: 'e error + 'a tensor) \<and>
       network x' args kwargs = Inl e \<longrightarrow>
         network_wrapper self network x args kwargs = (Inl e :: 'e error + 'a tensor))
   \<and> (list_getitem (roi_size self) (spatial_dim self) = (Inr r :: 'e error + int) \<and> r \<noteq> 1 \<and>
       network x args kwargs = Inl e \<longrightarrow>
         network_wrapper self network x args kwargs = Inl e)
   \<and> (sw_reraises super_call \<and> spatial_dim self \<in> {0, 1, 2} \<and> roi_size self = [p, q] \<and>
       shape inputs = [n, c, d, h, w] \<and> (\<forall>t. network t [] [] = Inl e) \<longrightarrow>
         call super_call self inputs network slice_axis args kwargs =
           (Inl e, self\<lparr>roi_size := list_insert (spatial_dim self) 1 [p, q]\<rparr>))"
proof (intro conjI impI)
  assume "spatial_dim self < 3 \<and>
    (length (roi_size self) = 2 \<or> length (roi_size self) = length (shape inputs) - 2)"
  then show "let r = call super_call self inputs network slice_axis args kwargs in
         fst r = super_call (snd r) inputs (\<lambda>x. network_wrapper (snd r) network x [] []) [] []"
    by (auto simp: call_def Let_def)
next
  assume "list_getitem (roi_size self) (spatial_dim self) = (Inr 1 :: 'e error + int) \<and>
       squeeze (spatial_dim self + 2) x = (Inr x' :: 'e error + 'a tensor) \<and>
       network x' args kwargs = Inl e"
  then show "network_wrapper self network x args kwargs = Inl e"
    by (simp add: network_wrapper_def)
next
  assume "list_getitem (roi_size self) (spatial_dim self) = (Inr r :: 'e error + int) \<and> r \<noteq> 1 \<and>
       network x args kwargs = Inl e"
  then show "network_wrapper self network x args kwargs = Inl e"
    by (simp add: network_wrapper_def)
next
  assume h: "sw_reraises super_call \<and> spatial_dim self \<in> {0, 1, 2} \<and> roi_size self = [p, q] \<and>
       shape inputs = [n, c, d, h, w] \<and> (\<forall>t. network t [] [] = Inl e)"
  define self' where "self' = self\<lparr>roi_size := list_insert (spatial_dim self) 1 [p, q]\<rparr>"
  have sd: "spatial_dim self' \<in> {0, 1, 2}"
    and r': "roi_size self' = list_insert (spatial_dim self') 1 [p, q]"
    using h by (simp_all add: self'_def)
  have c: "call super_call self inputs network slice_axis args kwargs =
       (super_call self' inputs (\<lambda>x. network_wrapper self' network x [] []) [] [], self')"
    using h by (intro call_broadcast) (auto simp: self'_def)
  have tiles: "\<forall>t b. shape t = b # c # map nat (roi_size self') \<longrightarrow>
      network_wrapper self' network t [] [] = Inl e"
    using adapter_raises [OF sd r'] h by blast
  have len: "length (roi_size self') = length [d, h, w]"
    by (simp add: r' length_list_insert)
  from h have rr: "sw_reraises super_call" and inp: "shape inputs = [n, c, d, h, w]"
    by simp_all
  have "super_call self' inputs (\<lambda>x. network_wrapper self' network x [] []) [] [] = Inl e"
    using rr [unfolded sw_reraises_def, rule_format, where inputs = inputs and n = n
        and c = c and sp = "[d, h, w]" and self = self'
        and f = "\<lambda>x. network_wrapper self' network x [] []" and e = e]
      inp len tiles by blast
  then show "call super_call self inputs network slice_axis args kwargs =
           (Inl e, self\<lparr>roi_size := list_insert (spatial_dim self) 1 [p, q]\<rparr>)"
    by (simp add: c self'_def)
qed

theorem errors_propagated_witness:
  "sw_reraises (single_tile_primitive :: (int, string, nat \<times> int, unit) primitive) \<and>
   spatial_dim axial_inferer \<in> {0, 1, 2} \<and> roi_size axial_inferer = [256, 256] \<and>
   shape input_volume = [1, 1, 64, 256, 256] \<and>
   (\<forall>t. failing_net t [] [] = Inl (Raised ''model failed'')) \<and>
   call single_tile_primitive axial_inferer input_volume failing_net 0 [] []
     = (Inl (Raised ''model failed''), axial_inferer\<lparr>roi_size := [1, 256, 256]\<rparr>) \<and>
   network_wrapper (coronal_inferer\<lparr>roi_size := [2, 1, 2]\<rparr>) failing_net
       \<lparr>shape = [1, 1, 2, 1, 2], elems = [1, 1, 1, 1]\<rparr> [] []
     = Inl (Raised ''model failed'') \<and>
   network_wrapper (coronal_inferer\<lparr>roi_size := [2, 2, 2]\<rparr>) failing_net
       \<lparr>shape = [1, 1, 2, 2, 2], elems = [1, 1, 1, 1, 1, 1, 1, 1]\<rparr> [] []
     = Inl (Raised ''model failed'')"
proof -
  let ?thin = "coronal_inferer\<lparr>roi_size := [2, 1, 2]\<rparr>"
  let ?thick = "coronal_inferer\<lparr>roi_size := [2, 2, 2]\<rparr>"
  let ?x = "\<lparr>shape = [1, 1, 2, 1, 2], elems = [1, 1, 1, 1 :: int]\<rparr>"
  let ?x' = "\<lparr>shape = [1, 1, 2, 2], elems = [1, 1, 1, 1 :: int]\<rparr>"
  let ?y = "\<lparr>shape = [1, 1, 2, 2, 2], elems = [1, 1, 1, 1, 1, 1, 1, 1 :: int]\<rparr>"
  have sw: "sw_reraises (single_tile_primitive :: (int, string, nat \<times> int, unit) primitive)"
    by (rule single_tile_primitive_reraises)
  have cfg: "spatial_dim axial_inferer \<in> {0, 1, 2}" "roi_size axial_inferer = [256, 256]"
    by (simp_all add: axial_inferer_def)
  have sd0: "spatial_dim axial_inferer = 0"
    by (simp add: axial_inferer_def)
  have fails: "\<forall>t. failing_net t [] [] = Inl (Raised ''model failed'')"
    by (simp add: failing_net_def)
  have thin: "list_getitem (roi_size ?thin) (spatial_dim ?thin) = (Inr 1 :: string error + int)"
    "squeeze (spatial_dim ?thin + 2) ?x = (Inr ?x' :: string error + int tensor)"
    by (simp_all add: coronal_inferer_def list_getitem_def squeeze_def Let_def)
  have thick: "list_getitem (roi_size ?thick) (spatial_dim ?thick) = (Inr 2 :: string error + int)"
    by (simp add: coronal_inferer_def list_getitem_def Let_def)
  have "call single_tile_primitive axial_inferer input_volume failing_net 0 [] []
      = (Inl (Raised ''model failed''), axial_inferer\<lparr>roi_size := [1, 256, 256]\<rparr>)"
    using errors_propagated [where super_call = single_tile_primitive and self = axial_inferer
        and inputs = input_volume and p = 256 and q = 256 and n = 1 and c = 1 and d = 64
        and h = 256 and w = 256 and e = "Raised ''model failed''" and network = failing_net
        and slice_axis = 0 and args = "[]" and kwargs = "[]",
        THEN conjunct2, THEN conjunct2, THEN conjunct2]
      sw cfg sd0 shape_input_volume fails by (simp add: list_insert_pair)
  moreover have "network_wrapper ?thin failing_net ?x [] [] = Inl (Raised ''model failed'')"
    using errors_propagated [where self = ?thin and x = ?x and x' = ?x'
        and e = "Raised ''model failed''" and network = failing_net
        and args = "[]" and kwargs = "[]", THEN conjunct2, THEN conjunct1]
      thin fails by simp
  moreover have "network_wrapper ?thick failing_net ?y [] [] = Inl (Raised ''model failed'')"
    using errors_propagated [where self = ?thick and x = ?y and r = 2
        and e = "Raised ''model failed''" and network = failing_net
        and args = "[]" and kwargs = "[]", THEN conjunct2, THEN conjunct2, THEN conjunct1]
      thick fails by simp
  ultimately show ?thesis
    using sw cfg shape_input_volume fails by simp
qed


section \<open>Determinism, and what a call writes\<close>












lemma call_st_instance:
  "(out, self') \<in> call_st super_call_st self x network_st slice_axis args kwargs h \<Longrightarrow>
     self' = snd (call super_call self \<lparr>shape = dims x, elems = e\<rparr> network slice_axis'
                    args' kwargs')"
  by (auto simp: call_st_def call_def Let_def split: if_splits)





section \<open>Arguments the call does not read\<close>

text \<open>
  Claim C9. The argument \<^verbatim>\<open>slice_axis\<close> of \<^verbatim>\<open>__call__\<close> is not read: two calls that
  differ in it alone have the same result, value or exception, and leave the same
  instance.
\<close>

theorem per_call_slice_axis_ignored:
  "call super_call self inputs network slice_axis args kwargs =
   call super_call self inputs network slice_axis' args kwargs"
  by (simp add: call_def)

lemma network_wrapper_cong:
  "(\<And>t. net1 t args kwargs = net2 t args kwargs) \<Longrightarrow>
     network_wrapper self net1 x args kwargs = network_wrapper self net2 x args kwargs"
  by (simp add: network_wrapper_def split: sum.splits)

text \<open>
  Claim C10. The extra positional and keyword arguments of \<^verbatim>\<open>__call__\<close> are dropped: a
  call with them equals the call without them, and since the model is only ever called
  with no extra argument, two models that agree there give the same call.
\<close>

theorem extra_arguments_discarded:
  "call super_call self inputs network slice_axis args kwargs =
     call super_call self inputs network slice_axis [] []
   \<and> ((\<forall>t. network t [] [] = network' t [] []) \<longrightarrow>
        call super_call self inputs network slice_axis args kwargs =
          call super_call self inputs network' slice_axis args kwargs)"
proof (intro conjI impI)
  show "call super_call self inputs network slice_axis args kwargs =
     call super_call self inputs network slice_axis [] []"
    by (simp add: call_def)
next
  assume "\<forall>t. network t [] [] = network' t [] []"
  then have eq: "(\<lambda>x. network_wrapper s network x [] []) = (\<lambda>x. network_wrapper s network' x [] [])"
    for s :: "'c inferer"
    by (intro ext network_wrapper_cong) simp
  show "call super_call self inputs network slice_axis args kwargs =
          call super_call self inputs network' slice_axis args kwargs"
    unfolding call_def eq ..
qed

theorem extra_arguments_discarded_witness:
  "(\<forall>t. plane_net t [] [] = (\<lambda>t args kwargs. plane_net t [] []) t [] []) \<and>
   call single_tile_primitive axial_inferer input_volume plane_net 0 [()] [(''mode'', ())] =
     call single_tile_primitive axial_inferer input_volume
       (\<lambda>t args kwargs. plane_net t [] []) 0 [()] [(''mode'', ())] \<and>
   call single_tile_primitive axial_inferer input_volume plane_net 0 [()] [(''mode'', ())] =
     call single_tile_primitive axial_inferer input_volume plane_net 0 [] []"
proof -
  have same: "\<forall>t. plane_net t [] [] = (\<lambda>t args kwargs. plane_net t [] []) t [] []"
    by simp
  note discarded = extra_arguments_discarded [where super_call = single_tile_primitive
      and self = axial_inferer and inputs = input_volume and network = plane_net
      and network' = "\<lambda>t args kwargs. plane_net t [] []" and slice_axis = 0
      and args = "[()]" and kwargs = "[(''mode'', ())]"]
  from discarded same show ?thesis
    by blast
qed

end
